theory Spec2Isabelle
  imports Main
begin

section \<open>Python values used by seqview.py\<close>

text \<open>
  The exceptions that the module raises itself or receives from the built-ins it calls.
\<close>

datatype error =
    AttributeError | IndexError | ValueError | TypeError | StopIteration
  | RuntimeError | OverflowError

text \<open>
  An index is either a native \<open>int\<close> or an instance of one of the two nested \<open>Index\<close>
  classes. Each execution of \<open>MapBidirectionalView.__init__\<close> or
  \<open>FilterBidirectionalView.__init__\<close> runs a \<open>class Index\<close> statement and so creates a
  new class object; the natural number in \<open>MapIndex\<close> and \<open>FilterIndex\<close> names that class
  object. The filter view's \<open>Index\<close> class closes over the \<open>func\<close> and \<open>seq\<close> arguments of
  the constructor that created it, so a \<open>FilterIndex\<close> carries both next to its
  \<open>seqindex\<close>. A filter view is built over a random-access sequence (see \<open>sfilter\<close>
  below), whose indices are integers, so \<open>seqindex\<close> is an \<open>int\<close>; of the closed-over
  \<open>seq\<close> the index methods use \<open>seq[i]\<close> only, so the index carries its items.
\<close>

datatype 'a index =
    Native int
  | MapIndex nat "'a index list"
  | FilterIndex nat "'a \<Rightarrow> bool" "'a list" int

text \<open>
  \<open>seq[i]\<close> on a random-access sequence (list, tuple, range, \<open>collections.UserList\<close>)
  with an integer: negative integers count from the end, anything out of range raises
  \<open>IndexError\<close>.
\<close>

definition native_getitem :: "'a list \<Rightarrow> int \<Rightarrow> error + 'a" where
  "native_getitem xs i =
     (if 0 \<le> i \<and> i < int (length xs) then Inr (xs ! nat i)
      else if - int (length xs) \<le> i \<and> i < 0 then Inr (xs ! nat (int (length xs) + i))
      else Inl IndexError)"

text \<open>
  A list comprehension or argument list whose elements may raise: evaluated left to
  right, the first exception leaves it.
\<close>

fun collect :: "(error + 'a) list \<Rightarrow> error + 'a list" where
  "collect [] = Inr []"
| "collect (Inl e # rs) = Inl e"
| "collect (Inr x # rs) = (case collect rs of Inl e \<Rightarrow> Inl e | Inr xs \<Rightarrow> Inr (x # xs))"

text \<open>
  \<open>try: r except AttributeError: alt\<close>.
\<close>

definition except_AttributeError :: "error + 'a \<Rightarrow> error + 'a \<Rightarrow> error + 'a" where
  "except_AttributeError r alt = (case r of Inl e \<Rightarrow> (if e = AttributeError then alt else Inl e) | Inr x \<Rightarrow> Inr x)"

section \<open>succ and pred\<close>

text \<open>
  The \<open>except AttributeError\<close> branches of \<open>succ\<close> and \<open>pred\<close>, taken for an \<open>int\<close>, which
  has no \<open>__succ__\<close> or \<open>__pred__\<close>: \<open>index+1\<close>, and \<open>index-1\<close> unless \<open>not index\<close>.
\<close>

definition succ_native :: "int \<Rightarrow> int" where
  "succ_native i = i + 1"

definition pred_native :: "int \<Rightarrow> error + int" where
  "pred_native i = (if i = 0 then Inl ValueError else Inr (i - 1))"

text \<open>
  The \<open>while True\<close> loops of \<open>FilterBidirectionalView.Index.__succ__\<close> and \<open>__pred__\<close>:
  step \<open>ret.seqindex\<close>, read \<open>seq[ret.seqindex]\<close>, return once \<open>func\<close> accepts the element.
  Nothing in the loop compares the index with the end of the sequence; the loop is left
  by the \<open>return\<close> or by an exception of the step or of the element access.
\<close>

function skip_succ :: "('a \<Rightarrow> bool) \<Rightarrow> 'a list \<Rightarrow> int \<Rightarrow> error + int" where
  "skip_succ func seq i =
     (case native_getitem seq (succ_native i) of
        Inl e \<Rightarrow> Inl e
      | Inr x \<Rightarrow> if func x then Inr (succ_native i) else skip_succ func seq (succ_native i))"
  by pat_completeness auto
termination
  by (relation "measure (\<lambda>(func, seq, i). nat (int (length seq) - i))")
     (auto simp: native_getitem_def succ_native_def split: if_splits)

declare skip_succ.simps [simp del]

function skip_pred :: "('a \<Rightarrow> bool) \<Rightarrow> 'a list \<Rightarrow> int \<Rightarrow> error + int" where
  "skip_pred func seq i =
     (case pred_native i of
        Inl e \<Rightarrow> Inl e
      | Inr j \<Rightarrow>
          (case native_getitem seq j of
             Inl e \<Rightarrow> Inl e
           | Inr x \<Rightarrow> if func x then Inr j else skip_pred func seq j))"
  by pat_completeness auto
termination
  by (relation "measure (\<lambda>(func, seq, i). nat (int (length seq) + i))")
     (auto simp: native_getitem_def pred_native_def split: if_splits)

declare skip_pred.simps [simp del]

text \<open>
  \<open>succ(index)\<close> and \<open>pred(index)\<close>. An \<open>Index\<close> object has the method, and an
  \<open>AttributeError\<close> escaping from it would be answered by \<open>index+1\<close> (\<open>index-1\<close>), which an
  \<open>Index\<close> object does not support.
\<close>

fun succ :: "'a index \<Rightarrow> error + 'a index" where
  "succ (Native i) = Inr (Native (succ_native i))"
| "succ (MapIndex c ixs) =
     except_AttributeError (map_sum id (MapIndex c) (collect (map succ ixs))) (Inl TypeError)"
| "succ (FilterIndex c func seq i) =
     except_AttributeError (map_sum id (FilterIndex c func seq) (skip_succ func seq i)) (Inl TypeError)"

fun pred :: "'a index \<Rightarrow> error + 'a index" where
  "pred (Native i) = map_sum id Native (pred_native i)"
| "pred (MapIndex c ixs) =
     except_AttributeError (map_sum id (MapIndex c) (collect (map pred ixs))) (Inl TypeError)"
| "pred (FilterIndex c func seq i) =
     except_AttributeError (map_sum id (FilterIndex c func seq) (skip_pred func seq i)) (Inl TypeError)"

section \<open>Index equality\<close>

text \<open>
  \<open>Index.__eq__\<close> of both nested classes:
  \<open>self.__class__ == other.__class__ and self.seqindices == other.seqindices\<close>
  (\<open>seqindex\<close> for the filter index). Class objects compare by identity. Two \<open>seqindices\<close>
  lists are equal when they have the same length and equal elements. An \<open>int\<close> compared
  with an \<open>Index\<close> object answers \<open>NotImplemented\<close>, Python then asks the \<open>Index\<close> object,
  whose class test fails. No path of either method has a \<open>raise\<close>.
\<close>

fun index_eq :: "'a index \<Rightarrow> 'a index \<Rightarrow> bool" where
  "index_eq (Native i) (Native j) = (i = j)"
| "index_eq (MapIndex c ixs) (MapIndex d jxs) = (c = d \<and> list_all2 index_eq ixs jxs)"
| "index_eq (FilterIndex c func seq i) (FilterIndex d func' seq' j) = (c = d \<and> i = j)"
| "index_eq _ _ = False"

text \<open>
  \<open>a == b\<close> and \<open>a != b\<close> as operations that could raise. \<open>BidirectionalIndex.__ne__\<close> is
  \<open>not self == other\<close>.
\<close>

definition py_eq :: "'a index \<Rightarrow> 'a index \<Rightarrow> error + bool" where
  "py_eq a b = Inr (index_eq a b)"

definition py_ne :: "'a index \<Rightarrow> 'a index \<Rightarrow> error + bool" where
  "py_ne a b = (case py_eq a b of Inl e \<Rightarrow> Inl e | Inr r \<Rightarrow> Inr (\<not> r))"

text \<open>
  The concrete kind of an index: \<open>int\<close>, or the class object of its \<open>Index\<close> class.
\<close>

datatype kind = IntKind | MapIndexClass nat | FilterIndexClass nat

fun kind_of :: "'a index \<Rightarrow> kind" where
  "kind_of (Native i) = IntKind"
| "kind_of (MapIndex c ixs) = MapIndexClass c"
| "kind_of (FilterIndex c func seq i) = FilterIndexClass c"

text \<open>
  \<open>min(x)\<close> with one argument iterates over \<open>x\<close>. Neither an \<open>int\<close> nor an instance of the
  nested \<open>Index\<close> classes (which define \<open>__init__\<close>, \<open>__succ__\<close>, \<open>__pred__\<close>, \<open>__eq__\<close> and
  \<open>__repr__\<close> only) is iterable.
\<close>

fun py_min :: "'a index \<Rightarrow> error + int" where
  "py_min (Native i) = Inl TypeError"
| "py_min (MapIndex c ixs) = Inl TypeError"
| "py_min (FilterIndex c func seq i) = Inl TypeError"

section \<open>Random-access sequences and their ends\<close>

text \<open>
  How the class of a random-access sequence is a \<open>collections.abc.Sequence\<close>.
  \<open>Registered\<close>: list, tuple, range and the other classes registered as virtual
  subclasses; they get no attribute from \<open>collections.abc.Sequence\<close>. \<open>Inheriting\<close>: a class
  that really inherits \<open>collections.abc.Sequence\<close>, such as \<open>collections.UserList\<close>; it
  inherits the two attributes that the module assigns,
  \<open>collections.abc.Sequence.__begin__ = lambda self: 0\<close> and
  \<open>collections.abc.Sequence.__end__ = collections.abc.Sequence.__len__\<close>. The right-hand
  side of the second assignment is evaluated once, on the class
  \<open>collections.abc.Sequence\<close>, which has no \<open>__len__\<close> of its own: the value is the
  abstract \<open>Sized.__len__\<close>, whose body is \<open>return 0\<close>.
\<close>

datatype seq_class = Registered | Inheriting

text \<open>
  \<open>len(seq)\<close> of the built-in raises \<open>OverflowError\<close> for a length above \<open>sys.maxsize\<close>
  (a long \<open>range\<close>); the value is that of a 64-bit platform.
\<close>

definition sys_maxsize :: int where
  "sys_maxsize = 2 ^ 63 - 1"

definition py_len :: "'a list \<Rightarrow> error + int" where
  "py_len xs = (if int (length xs) \<le> sys_maxsize then Inr (int (length xs)) else Inl OverflowError)"

text \<open>
  \<open>begin(seq)\<close> and \<open>end(seq)\<close> for a random-access sequence with the items \<open>xs\<close>:
  \<open>seq.__begin__()\<close> and \<open>seq.__end__()\<close> where the class inherits them; for a registered class
  the attribute is missing, and the \<open>except AttributeError\<close> branch returns \<open>0\<close> and
  \<open>len(seq)\<close>.
\<close>

fun sequence_begin :: "seq_class \<Rightarrow> 'a list \<Rightarrow> error + int" where
  "sequence_begin Inheriting xs = Inr 0"
| "sequence_begin Registered xs = Inr 0"

fun sequence_end :: "seq_class \<Rightarrow> 'a list \<Rightarrow> error + int" where
  "sequence_end Inheriting xs = Inr 0"
| "sequence_end Registered xs = py_len xs"

section \<open>FilterBidirectionalView\<close>

record 'a filter_view =
  fv_func :: "'a \<Rightarrow> bool"
  fv_seq_class :: seq_class
  fv_seq :: "'a list"
  fv_class :: nat
  fv_begin :: "'a index"
  fv_end :: "'a index"

text \<open>
  \<open>FilterBidirectionalView.__init__(self, func, seq)\<close> for a random-access sequence \<open>seq\<close>
  of class \<open>k\<close> with the items \<open>xs\<close>. The class counter \<open>h\<close> is the number of class objects
  created so far; the \<open>class Index\<close> statement takes the next one. The \<open>try\<close> block
  catches \<open>StopIteration\<close> only; its handler reads \<open>self.end\<close>, which is assigned after the
  \<open>try\<close> statement, so the handler itself would raise \<open>AttributeError\<close>.
\<close>

definition FilterBidirectionalView_init ::
  "('a \<Rightarrow> bool) \<Rightarrow> seq_class \<Rightarrow> 'a list \<Rightarrow> nat \<Rightarrow> (error + 'a filter_view) \<times> nat" where
  "FilterBidirectionalView_init func k xs h =
     (case sequence_begin k xs of
        Inl e \<Rightarrow> (Inl e, Suc h)
      | Inr b0 \<Rightarrow>
          (let begin0 = FilterIndex h func xs b0;
               body = (case native_getitem xs b0 of
                         Inl e \<Rightarrow> Inl e
                       | Inr x \<Rightarrow> if \<not> func x then succ begin0 else Inr begin0)
           in case body of
                Inl e \<Rightarrow> (if e = StopIteration then (Inl AttributeError, Suc h) else (Inl e, Suc h))
              | Inr b \<Rightarrow>
                  (case sequence_end k xs of
                     Inl e \<Rightarrow> (Inl e, Suc h)
                   | Inr n \<Rightarrow>
                       (Inr \<lparr>fv_func = func, fv_seq_class = k, fv_seq = xs, fv_class = h,
                             fv_begin = b, fv_end = FilterIndex h func xs n\<rparr>, Suc h))))"

text \<open>
  \<open>FilterBidirectionalView.__getitem__\<close> at an index that is not a slice:
  \<open>self.seq[index.seqindex]\<close>. Only a filter index has the attribute \<open>seqindex\<close>.
\<close>

fun fv_getitem :: "'a filter_view \<Rightarrow> 'a index \<Rightarrow> error + 'a" where
  "fv_getitem v (FilterIndex c func seq i) = native_getitem (fv_seq v) i"
| "fv_getitem v (Native i) = Inl AttributeError"
| "fv_getitem v (MapIndex c ixs) = Inl AttributeError"

section \<open>The objects a caller passes to smap and sfilter\<close>

text \<open>
  \<open>PySequence\<close> is a native random-access sequence (list, tuple, range), of a class
  registered with \<open>collections.abc.Sequence\<close>. \<open>PyUserSequence\<close> is a random-access
  sequence of a class that inherits \<open>collections.abc.Sequence\<close> and keeps its items in a
  list (\<open>collections.UserList\<close>). \<open>PyFilterView\<close> is an instance of
  \<open>FilterBidirectionalView\<close>, a bidirectional-only sequence. \<open>PyIterator\<close> is a generator
  or other plain iterator. A map view is not modelled as the source of another view.
\<close>

datatype 'a iterable =
    PySequence "'a list"
  | PyUserSequence "'a list"
  | PyFilterView "'a filter_view"
  | PyIterator "'a list"

text \<open>
  \<open>isinstance(x, collections.abc.Sequence)\<close> and \<open>isinstance(x, BidirectionalSequence)\<close>;
  the module registers \<open>collections.abc.Sequence\<close> as a virtual subclass of
  \<open>BidirectionalSequence\<close>.
\<close>

fun is_Sequence :: "'a iterable \<Rightarrow> bool" where
  "is_Sequence (PySequence xs) = True"
| "is_Sequence (PyUserSequence xs) = True"
| "is_Sequence (PyFilterView v) = False"
| "is_Sequence (PyIterator xs) = False"

fun is_BidirectionalSequence :: "'a iterable \<Rightarrow> bool" where
  "is_BidirectionalSequence (PySequence xs) = True"
| "is_BidirectionalSequence (PyUserSequence xs) = True"
| "is_BidirectionalSequence (PyFilterView v) = True"
| "is_BidirectionalSequence (PyIterator xs) = False"

text \<open>
  \<open>begin(seq)\<close> and \<open>end(seq)\<close>: \<open>seq.__begin__()\<close> and \<open>seq.__end__()\<close>, which a view and
  an inheriting sequence have; on \<open>AttributeError\<close> the value \<open>0\<close> and \<open>len(seq)\<close> for a
  \<open>Sequence\<close>; otherwise the \<open>AttributeError\<close> is raised again.
\<close>

fun seq_begin :: "'a iterable \<Rightarrow> error + 'a index" where
  "seq_begin (PyFilterView v) = Inr (fv_begin v)"
| "seq_begin (PyUserSequence xs) = map_sum id Native (sequence_begin Inheriting xs)"
| "seq_begin (PySequence xs) = map_sum id Native (sequence_begin Registered xs)"
| "seq_begin (PyIterator xs) = Inl AttributeError"

fun seq_end :: "'a iterable \<Rightarrow> error + 'a index" where
  "seq_end (PyFilterView v) = Inr (fv_end v)"
| "seq_end (PyUserSequence xs) = map_sum id Native (sequence_end Inheriting xs)"
| "seq_end (PySequence xs) = map_sum id Native (sequence_end Registered xs)"
| "seq_end (PyIterator xs) = Inl AttributeError"

text \<open>
  \<open>seq[i]\<close> for a source of a map view. A random-access sequence accepts integers only;
  an iterator is not subscriptable.
\<close>

fun seq_getitem :: "'a iterable \<Rightarrow> 'a index \<Rightarrow> error + 'a" where
  "seq_getitem (PySequence xs) (Native i) = native_getitem xs i"
| "seq_getitem (PySequence xs) (MapIndex c ixs) = Inl TypeError"
| "seq_getitem (PySequence xs) (FilterIndex c func seq i) = Inl TypeError"
| "seq_getitem (PyUserSequence xs) (Native i) = native_getitem xs i"
| "seq_getitem (PyUserSequence xs) (MapIndex c ixs) = Inl TypeError"
| "seq_getitem (PyUserSequence xs) (FilterIndex c func seq i) = Inl TypeError"
| "seq_getitem (PyFilterView v) idx = fv_getitem v idx"
| "seq_getitem (PyIterator xs) idx = Inl TypeError"

section \<open>MapBidirectionalView and MapView\<close>

datatype map_class = MapView | MapBidirectionalView

record ('a, 'b) map_view =
  mv_cls :: map_class
  mv_func :: "'a list \<Rightarrow> error + 'b"
  mv_seqs :: "'a iterable list"
  mv_class :: nat
  mv_begin :: "'a index"
  mv_end :: "'a index"

text \<open>
  \<open>MapBidirectionalView.__init__(self, func, *seqs)\<close>, shared by \<open>MapView\<close>; \<open>cls\<close> is the
  class being instantiated. \<open>func\<close> receives the argument list and may raise (a function
  of the wrong arity raises \<open>TypeError\<close>).
\<close>

definition MapBidirectionalView_init ::
  "map_class \<Rightarrow> ('a list \<Rightarrow> error + 'b) \<Rightarrow> 'a iterable list \<Rightarrow> nat \<Rightarrow>
   (error + ('a, 'b) map_view) \<times> nat" where
  "MapBidirectionalView_init cls func seqs h =
     (case collect (map seq_begin seqs) of
        Inl e \<Rightarrow> (Inl e, Suc h)
      | Inr bs \<Rightarrow>
          (case collect (map seq_end seqs) of
             Inl e \<Rightarrow> (Inl e, Suc h)
           | Inr es \<Rightarrow>
               (Inr \<lparr>mv_cls = cls, mv_func = func, mv_seqs = seqs, mv_class = h,
                     mv_begin = MapIndex h bs, mv_end = MapIndex h es\<rparr>, Suc h)))"

text \<open>
  \<open>MapBidirectionalView.__getitem__\<close> at an index that is not a slice. \<open>zip\<close> pairs the
  sources with \<open>index.seqindices\<close>; an index without that attribute (an \<open>int\<close>, a filter
  index) is paired with every source. The elements are read left to right, then \<open>func\<close>
  is called.
\<close>

fun mv_pairs :: "('a, 'b) map_view \<Rightarrow> 'a index \<Rightarrow> ('a iterable \<times> 'a index) list" where
  "mv_pairs v (MapIndex c ixs) = zip (mv_seqs v) ixs"
| "mv_pairs v (Native i) = map (\<lambda>s. (s, Native i)) (mv_seqs v)"
| "mv_pairs v (FilterIndex c func seq i) = map (\<lambda>s. (s, FilterIndex c func seq i)) (mv_seqs v)"

definition mv_getitem :: "('a, 'b) map_view \<Rightarrow> 'a index \<Rightarrow> error + 'b" where
  "mv_getitem v idx =
     (case collect (map (\<lambda>(s, i). seq_getitem s i) (mv_pairs v idx)) of
        Inl e \<Rightarrow> Inl e
      | Inr args \<Rightarrow> mv_func v args)"

text \<open>
  \<open>MapView.__len__\<close>: \<open>min(self.end)\<close>. A \<open>MapBidirectionalView\<close> has no \<open>__len__\<close>.
\<close>

definition MapView_len :: "('a, 'b) map_view \<Rightarrow> error + int" where
  "MapView_len v = (case mv_cls v of MapView \<Rightarrow> py_min (mv_end v) | MapBidirectionalView \<Rightarrow> Inl TypeError)"

section \<open>Iteration\<close>

text \<open>
  How a generator ends: its body returns, or an exception leaves it.
\<close>

datatype outcome = Returned | Raised error

text \<open>
  The \<open>except IndexError as e: raise StopIteration from e\<close> clause of
  \<open>BidirectionalSequence.__iter__\<close>; the \<open>try\<close> block encloses the whole loop.
\<close>

definition iter_except :: "error \<Rightarrow> outcome" where
  "iter_except e = (if e = IndexError then Raised StopIteration else Raised e)"

text \<open>
  The loop of \<open>BidirectionalSequence.__iter__\<close>, for a view whose \<open>self[pos]\<close> is
  \<open>getitem\<close>: the elements yielded, in order, and how the generator ends. The element is
  yielded before \<open>succ(pos)\<close> is evaluated. The loop need not end; \<open>None\<close> is a run
  that yields for ever.
\<close>

partial_function (option) iter_loop ::
  "('a index \<Rightarrow> error + 'b) \<Rightarrow> 'a index \<Rightarrow> 'a index \<Rightarrow> ('b list \<times> outcome) option" where
  "iter_loop getitem end_idx pos =
     (case py_ne pos end_idx of
        Inl e \<Rightarrow> Some ([], iter_except e)
      | Inr continue \<Rightarrow>
          if continue then
            (case getitem pos of
               Inl e \<Rightarrow> Some ([], iter_except e)
             | Inr x \<Rightarrow>
                 (case succ pos of
                    Inl e \<Rightarrow> Some ([x], iter_except e)
                  | Inr pos' \<Rightarrow>
                      Option.bind (iter_loop getitem end_idx pos')
                        (\<lambda>(xs, out). Some (x # xs, out))))
          else Some ([], Returned))"

text \<open>
  The loop of \<open>BidirectionalSequence.__reversed__\<close>: step back first, then yield. It has
  no exception handler.
\<close>

partial_function (option) reversed_loop ::
  "('a index \<Rightarrow> error + 'b) \<Rightarrow> 'a index \<Rightarrow> 'a index \<Rightarrow> ('b list \<times> outcome) option" where
  "reversed_loop getitem begin_idx pos =
     (case py_ne pos begin_idx of
        Inl e \<Rightarrow> Some ([], Raised e)
      | Inr continue \<Rightarrow>
          if continue then
            (case pred pos of
               Inl e \<Rightarrow> Some ([], Raised e)
             | Inr pos' \<Rightarrow>
                 (case getitem pos' of
                    Inl e \<Rightarrow> Some ([], Raised e)
                  | Inr x \<Rightarrow>
                      Option.bind (reversed_loop getitem begin_idx pos')
                        (\<lambda>(xs, out). Some (x # xs, out))))
          else Some ([], Returned))"

declare iter_loop.simps [code]
declare reversed_loop.simps [code]

text \<open>
  \<open>iter(view)\<close> and \<open>reversed(view)\<close> run to the end, for the two kinds of view.
\<close>

definition mv_iter :: "('a, 'b) map_view \<Rightarrow> ('b list \<times> outcome) option" where
  "mv_iter v = iter_loop (mv_getitem v) (mv_end v) (mv_begin v)"

definition mv_reversed :: "('a, 'b) map_view \<Rightarrow> ('b list \<times> outcome) option" where
  "mv_reversed v = reversed_loop (mv_getitem v) (mv_begin v) (mv_end v)"

definition fv_iter :: "'a filter_view \<Rightarrow> ('a list \<times> outcome) option" where
  "fv_iter v = iter_loop (fv_getitem v) (fv_end v) (fv_begin v)"

definition fv_reversed :: "'a filter_view \<Rightarrow> ('a list \<times> outcome) option" where
  "fv_reversed v = reversed_loop (fv_getitem v) (fv_begin v) (fv_end v)"

text \<open>
  \<open>list(it)\<close> for a generator object whose body has run as described by the argument.
  A body that returns ends the list. A \<open>StopIteration\<close> that leaves the body of a
  generator does not end the iteration: the interpreter replaces it by \<open>RuntimeError\<close>
  (PEP 479, in force for all code since Python 3.7), which reaches the caller of
  \<open>list\<close>, as does any other exception.
\<close>

fun py_list :: "'b list \<times> outcome \<Rightarrow> error + 'b list" where
  "py_list (xs, Returned) = Inr xs"
| "py_list (xs, Raised e) = (if e = StopIteration then Inl RuntimeError else Inl e)"

section \<open>smap and sfilter\<close>

datatype ('a, 'b) smap_result =
    View "('a, 'b) map_view"
  | BuiltinMap "'a list \<Rightarrow> error + 'b" "'a iterable list"

text \<open>
  \<open>smap(func, *iterables)\<close>. The built-in \<open>map\<close> of the last branch raises \<open>TypeError\<close>
  when it is given no iterable.
\<close>

definition smap ::
  "('a list \<Rightarrow> error + 'b) \<Rightarrow> 'a iterable list \<Rightarrow> nat \<Rightarrow> (error + ('a, 'b) smap_result) \<times> nat" where
  "smap func iterables h =
     (if list_all is_Sequence iterables then
        (case MapBidirectionalView_init MapView func iterables h of
           (r, h') \<Rightarrow> (map_sum id View r, h'))
      else if list_all is_BidirectionalSequence iterables then
        (case MapBidirectionalView_init MapBidirectionalView func iterables h of
           (r, h') \<Rightarrow> (map_sum id View r, h'))
      else if iterables = [] then (Inl TypeError, h)
      else (Inr (BuiltinMap func iterables), h))"

datatype 'a sfilter_result =
    FilterView "'a filter_view"
  | BuiltinFilter "'a \<Rightarrow> bool" "'a iterable"

text \<open>
  \<open>sfilter(func, iterable)\<close>: the test is \<open>isinstance(iterable, collections.abc.Sequence)\<close>,
  which of the objects modelled here holds for the random-access sequences only.
\<close>

fun sfilter ::
  "('a \<Rightarrow> bool) \<Rightarrow> 'a iterable \<Rightarrow> nat \<Rightarrow> (error + 'a sfilter_result) \<times> nat" where
  "sfilter func (PySequence xs) h =
     (case FilterBidirectionalView_init func Registered xs h of
        (r, h') \<Rightarrow> (map_sum id FilterView r, h'))"
| "sfilter func (PyUserSequence xs) h =
     (case FilterBidirectionalView_init func Inheriting xs h of
        (r, h') \<Rightarrow> (map_sum id FilterView r, h'))"
| "sfilter func (PyFilterView v) h = (Inr (BuiltinFilter func (PyFilterView v)), h)"
| "sfilter func (PyIterator xs) h = (Inr (BuiltinFilter func (PyIterator xs)), h)"

text \<open>
  A function of two arguments as the \<open>func\<close> of a map view.
\<close>

fun binary :: "('a \<Rightarrow> 'a \<Rightarrow> 'b) \<Rightarrow> 'a list \<Rightarrow> error + 'b" where
  "binary f [x, y] = Inr (f x y)"
| "binary f args = Inl TypeError"

text \<open>
  The view that \<open>smap\<close> builds for a function of two arguments over two native sequences
  whose lengths \<open>len\<close> can return.
\<close>

definition two_view :: "('a \<Rightarrow> 'a \<Rightarrow> 'b) \<Rightarrow> 'a list \<Rightarrow> 'a list \<Rightarrow> nat \<Rightarrow> ('a, 'b) map_view" where
  "two_view f a b h =
     \<lparr>mv_cls = MapView, mv_func = binary f, mv_seqs = [PySequence a, PySequence b], mv_class = h,
      mv_begin = MapIndex h [Native 0, Native 0],
      mv_end = MapIndex h [Native (int (length a)), Native (int (length b))]\<rparr>"







section \<open>Auxiliary facts\<close>

subsection \<open>One turn of the iteration loops\<close>

lemma iter_loop_stop:
  "py_ne pos e = Inr False \<Longrightarrow> iter_loop getitem e pos = Some ([], Returned)"
  by (subst iter_loop.simps) simp

lemma iter_loop_getitem_raises:
  "py_ne pos e = Inr True \<Longrightarrow> getitem pos = Inl er \<Longrightarrow>
   iter_loop getitem e pos = Some ([], iter_except er)"
  by (subst iter_loop.simps) simp

lemma iter_loop_succ_raises:
  "py_ne pos e = Inr True \<Longrightarrow> getitem pos = Inr x \<Longrightarrow> succ pos = Inl er \<Longrightarrow>
   iter_loop getitem e pos = Some ([x], iter_except er)"
  by (subst iter_loop.simps) simp

lemma iter_loop_step:
  "py_ne pos e = Inr True \<Longrightarrow> getitem pos = Inr x \<Longrightarrow> succ pos = Inr pos' \<Longrightarrow>
   iter_loop getitem e pos' = Some (xs, out) \<Longrightarrow>
   iter_loop getitem e pos = Some (x # xs, out)"
  by (subst iter_loop.simps) simp

lemma reversed_loop_stop:
  "py_ne pos b = Inr False \<Longrightarrow> reversed_loop getitem b pos = Some ([], Returned)"
  by (subst reversed_loop.simps) simp

lemma reversed_loop_step:
  "py_ne pos b = Inr True \<Longrightarrow> pred pos = Inr pos' \<Longrightarrow> getitem pos' = Inr x \<Longrightarrow>
   reversed_loop getitem b pos' = Some (xs, out) \<Longrightarrow>
   reversed_loop getitem b pos = Some (x # xs, out)"
  by (subst reversed_loop.simps) simp

subsection \<open>The test that sfilter makes\<close>

lemma sfilter_dispatch:
  "sfilter func iterable h =
     (if is_Sequence iterable
      then (case iterable of
              PySequence xs \<Rightarrow>
                (case FilterBidirectionalView_init func Registered xs h of
                   (r, h') \<Rightarrow> (map_sum id FilterView r, h'))
            | PyUserSequence xs \<Rightarrow>
                (case FilterBidirectionalView_init func Inheriting xs h of
                   (r, h') \<Rightarrow> (map_sum id FilterView r, h'))
            | _ \<Rightarrow> (Inr (BuiltinFilter func iterable), h))
      else (Inr (BuiltinFilter func iterable), h))"
  by (cases iterable) simp_all

subsection \<open>Stepping keeps the class of an index\<close>


lemma pred_kind: "pred i = Inr j \<Longrightarrow> kind_of j = kind_of i"
  by (cases i) (auto simp: except_AttributeError_def map_sum_def split: sum.splits if_splits)

subsection \<open>The class created by a constructor call\<close>


subsection \<open>A map view over two native sequences\<close>

lemma smap_two:
  "int (length a) \<le> sys_maxsize \<Longrightarrow> int (length b) \<le> sys_maxsize \<Longrightarrow>
   smap (binary f) [PySequence a, PySequence b] h = (Inr (View (two_view f a b h)), Suc h)"
  by (simp add: smap_def MapBidirectionalView_init_def two_view_def py_len_def)

lemma two_view_getitem:
  "mv_getitem (two_view f a b h) (MapIndex c [Native (int k), Native (int k)]) =
     (if k < length a \<and> k < length b then Inr (f (a ! k) (b ! k)) else Inl IndexError)"
  by (simp add: mv_getitem_def two_view_def native_getitem_def)

lemma succ_pair:
  "succ (MapIndex c [Native (int k), Native (int k)]) =
     Inr (MapIndex c [Native (int (Suc k)), Native (int (Suc k))])"
  by (simp add: except_AttributeError_def succ_native_def add.commute)

lemma pred_pair:
  "pred (MapIndex c [Native (int (Suc k)), Native (int (Suc k))]) =
     Inr (MapIndex c [Native (int k), Native (int k)])"
  by (simp add: except_AttributeError_def pred_native_def)

lemma two_view_forward:
  "k \<le> min (length a) (length b) \<Longrightarrow>
   iter_loop (mv_getitem (two_view f a b h)) (mv_end (two_view f a b h))
       (MapIndex h [Native (int k), Native (int k)]) =
     Some (map2 f (drop k a) (drop k b),
           if length a = length b then Returned else Raised StopIteration)"
proof (induction "min (length a) (length b) - k" arbitrary: k)
  case 0
  then have k: "k = min (length a) (length b)" by simp
  show ?case
  proof (cases "length a = length b")
    case True
    with k show ?thesis
      by (simp add: iter_loop_stop two_view_def py_ne_def py_eq_def)
  next
    case False
    with k have ne: "py_ne (MapIndex h [Native (int k), Native (int k)])
        (mv_end (two_view f a b h)) = Inr True"
      by (auto simp: two_view_def py_ne_def py_eq_def)
    have "\<not> (k < length a \<and> k < length b)" using k by auto
    then have gi: "mv_getitem (two_view f a b h)
        (MapIndex h [Native (int k), Native (int k)]) = Inl IndexError"
      by (simp add: two_view_getitem)
    have "drop k a = [] \<or> drop k b = []" using k by (auto simp: min_def split: if_splits)
    then have "map2 f (drop k a) (drop k b) = []" by auto
    with iter_loop_getitem_raises [where getitem = "mv_getitem (two_view f a b h)", OF ne gi] False
    show ?thesis
      by (simp add: iter_except_def)
  qed
next
  case (Suc n)
  then have lt: "k < length a" "k < length b" by auto
  then have ne: "py_ne (MapIndex h [Native (int k), Native (int k)])
      (mv_end (two_view f a b h)) = Inr True"
    by (simp add: two_view_def py_ne_def py_eq_def)
  have gi: "mv_getitem (two_view f a b h)
      (MapIndex h [Native (int k), Native (int k)]) = Inr (f (a ! k) (b ! k))"
    using lt by (simp add: two_view_getitem)
  have IH: "iter_loop (mv_getitem (two_view f a b h)) (mv_end (two_view f a b h))
       (MapIndex h [Native (int (Suc k)), Native (int (Suc k))]) =
     Some (map2 f (drop (Suc k) a) (drop (Suc k) b),
           if length a = length b then Returned else Raised StopIteration)"
    using Suc.hyps(1) [of "Suc k"] Suc.hyps(2) lt by auto
  have dr: "drop k a = a ! k # drop (Suc k) a" "drop k b = b ! k # drop (Suc k) b"
    using lt by (simp_all add: Cons_nth_drop_Suc)
  show ?case
    unfolding dr using iter_loop_step [OF ne gi succ_pair IH] by simp
qed

lemma two_view_backward:
  "length a = length b \<Longrightarrow> k \<le> length a \<Longrightarrow>
   reversed_loop (mv_getitem (two_view f a b h)) (mv_begin (two_view f a b h))
       (MapIndex h [Native (int k), Native (int k)]) =
     Some (rev (map2 f (take k a) (take k b)), Returned)"
proof (induction k)
  case 0
  show ?case
    by (simp add: reversed_loop_stop two_view_def py_ne_def py_eq_def)
next
  case (Suc k)
  then have lt: "k < length a" "k < length b" by auto
  have ne: "py_ne (MapIndex h [Native (int (Suc k)), Native (int (Suc k))])
      (mv_begin (two_view f a b h)) = Inr True"
    by (simp add: two_view_def py_ne_def py_eq_def)
  have gi: "mv_getitem (two_view f a b h)
      (MapIndex h [Native (int k), Native (int k)]) = Inr (f (a ! k) (b ! k))"
    using lt by (simp add: two_view_getitem)
  have IH: "reversed_loop (mv_getitem (two_view f a b h)) (mv_begin (two_view f a b h))
       (MapIndex h [Native (int k), Native (int k)]) =
     Some (rev (map2 f (take k a) (take k b)), Returned)"
    using Suc by simp
  have tk: "take (Suc k) a = take k a @ [a ! k]" "take (Suc k) b = take k b @ [b ! k]"
    using lt by (simp_all add: take_Suc_conv_app_nth)
  have "length (take k a) = length (take k b)" using lt by simp
  then have rv: "rev (map2 f (take (Suc k) a) (take (Suc k) b)) =
      f (a ! k) (b ! k) # rev (map2 f (take k a) (take k b))"
    unfolding tk by simp
  show ?case
    unfolding rv by (rule reversed_loop_step [OF ne pred_pair gi IH])
qed

lemma two_view_iter:
  "mv_iter (two_view f a b h) =
     Some (map2 f a b, if length a = length b then Returned else Raised StopIteration)"
  using two_view_forward [of 0 a b f h] by (simp add: mv_iter_def two_view_def)

lemma two_view_reversed:
  "length a = length b \<Longrightarrow> mv_reversed (two_view f a b h) = Some (rev (map2 f a b), Returned)"
  using two_view_backward [of a b "length a" f h] by (simp add: mv_reversed_def two_view_def)

subsection \<open>A filter view whose predicate accepts no element\<close>

lemma native_getitem_in_set: "native_getitem xs i = Inr x \<Longrightarrow> x \<in> set xs"
  by (auto simp: native_getitem_def split: if_splits)

lemma skip_succ_no_match:
  "\<forall>x\<in>set seq. \<not> func x \<Longrightarrow> skip_succ func seq i = Inl IndexError"
proof (induction func seq i rule: skip_succ.induct)
  case (1 func seq i)
  show ?case
  proof (cases "native_getitem seq (succ_native i)")
    case (Inl e)
    then have "e = IndexError" by (auto simp: native_getitem_def split: if_splits)
    with Inl show ?thesis by (subst skip_succ.simps) simp
  next
    case (Inr x)
    then have "\<not> func x" using "1.prems" native_getitem_in_set by fastforce
    with Inr "1.IH" "1.prems" show ?thesis by (subst skip_succ.simps) simp
  qed
qed

lemma sequence_begin_zero: "sequence_begin k xs = Inr 0"
  by (cases k) simp_all

lemma init_no_match:
  assumes "filter func seq = []"
  shows "FilterBidirectionalView_init func k seq h = (Inl IndexError, Suc h)"
proof -
  from assms have nm: "\<forall>x\<in>set seq. \<not> func x" by (simp add: filter_empty_conv)
  show ?thesis
  proof (cases seq)
    case Nil
    then show ?thesis
      by (simp add: FilterBidirectionalView_init_def sequence_begin_zero native_getitem_def)
  next
    case (Cons y ys)
    then have "native_getitem seq 0 = Inr y" by (simp add: native_getitem_def)
    moreover have "\<not> func y" using nm Cons by simp
    ultimately show ?thesis
      using skip_succ_no_match [OF nm, of 0]
      by (simp add: FilterBidirectionalView_init_def sequence_begin_zero except_AttributeError_def)
  qed
qed

subsection \<open>A filter view whose predicate accepts some element\<close>

lemma native_getitem_nat:
  "native_getitem s (int k) = (if k < length s then Inr (s ! k) else Inl IndexError)"
  by (simp add: native_getitem_def)

lemma skip_succ_cases:
  "(skip_succ p s (int k) = Inl IndexError \<and> filter p (drop (Suc k) s) = []) \<or>
   (\<exists>k'. skip_succ p s (int k) = Inr (int k') \<and> k < k' \<and> k' < length s \<and> p (s ! k') \<and>
      filter p (drop (Suc k) s) = filter p (drop k' s) \<and>
      filter p (take k' s) = filter p (take (Suc k) s))"
proof (induction "length s - Suc k" arbitrary: k)
  case 0
  then have ge: "\<not> Suc k < length s" by arith
  have sn: "succ_native (int k) = int (Suc k)" by (simp add: succ_native_def)
  have "skip_succ p s (int k) = Inl IndexError"
    by (subst skip_succ.simps) (simp add: sn native_getitem_nat ge del: of_nat_Suc)
  moreover have "drop (Suc k) s = []" using ge by simp
  ultimately show ?case by simp
next
  case (Suc n)
  then have lt: "Suc k < length s" by arith
  have sn: "succ_native (int k) = int (Suc k)" by (simp add: succ_native_def)
  have gi: "native_getitem s (int (Suc k)) = Inr (s ! Suc k)"
    using lt by (simp add: native_getitem_nat del: of_nat_Suc)
  have dr: "drop (Suc k) s = s ! Suc k # drop (Suc (Suc k)) s"
    using lt by (simp add: Cons_nth_drop_Suc)
  have tk: "take (Suc (Suc k)) s = take (Suc k) s @ [s ! Suc k]"
    using lt by (simp add: take_Suc_conv_app_nth)
  show ?case
  proof (cases "p (s ! Suc k)")
    case True
    have "skip_succ p s (int k) = Inr (int (Suc k))"
      by (subst skip_succ.simps) (simp add: sn gi True del: of_nat_Suc)
    with True lt show ?thesis by blast
  next
    case False
    have eq: "skip_succ p s (int k) = skip_succ p s (int (Suc k))"
      by (subst skip_succ.simps) (simp add: sn gi False del: of_nat_Suc)
    have d: "filter p (drop (Suc k) s) = filter p (drop (Suc (Suc k)) s)"
      by (subst dr) (simp add: False)
    have t: "filter p (take (Suc (Suc k)) s) = filter p (take (Suc k) s)"
      by (subst tk) (simp add: False)
    from Suc.hyps(1) [of "Suc k"] Suc.hyps(2)
    have "(skip_succ p s (int (Suc k)) = Inl IndexError \<and> filter p (drop (Suc (Suc k)) s) = []) \<or>
      (\<exists>k'. skip_succ p s (int (Suc k)) = Inr (int k') \<and> Suc k < k' \<and> k' < length s \<and> p (s ! k') \<and>
        filter p (drop (Suc (Suc k)) s) = filter p (drop k' s) \<and>
        filter p (take k' s) = filter p (take (Suc (Suc k)) s))"
      by simp
    then show ?thesis
    proof
      assume "skip_succ p s (int (Suc k)) = Inl IndexError \<and> filter p (drop (Suc (Suc k)) s) = []"
      with eq d show ?thesis by simp
    next
      assume "\<exists>k'. skip_succ p s (int (Suc k)) = Inr (int k') \<and> Suc k < k' \<and> k' < length s \<and> p (s ! k') \<and>
        filter p (drop (Suc (Suc k)) s) = filter p (drop k' s) \<and>
        filter p (take k' s) = filter p (take (Suc (Suc k)) s)"
      then obtain k' where k': "skip_succ p s (int (Suc k)) = Inr (int k')" "Suc k < k'"
        "k' < length s" "p (s ! k')" "filter p (drop (Suc (Suc k)) s) = filter p (drop k' s)"
        "filter p (take k' s) = filter p (take (Suc (Suc k)) s)" by blast
      have "skip_succ p s (int k) = Inr (int k') \<and> k < k' \<and> k' < length s \<and> p (s ! k') \<and>
        filter p (drop (Suc k) s) = filter p (drop k' s) \<and>
        filter p (take k' s) = filter p (take (Suc k) s)"
        using k' eq d t by simp
      then show ?thesis by blast
    qed
  qed
qed

lemma skip_pred_cases:
  "k \<le> length s \<Longrightarrow>
   (skip_pred p s (int k) = Inl ValueError \<and> filter p (take k s) = []) \<or>
   (\<exists>k'. skip_pred p s (int k) = Inr (int k') \<and> k' < k \<and> p (s ! k') \<and>
      filter p (take k s) = filter p (take k' s) @ [s ! k'])"
proof (induction k)
  case 0
  have "skip_pred p s (int 0) = Inl ValueError"
    by (subst skip_pred.simps) (simp add: pred_native_def)
  then show ?case by simp
next
  case (Suc k)
  then have lt: "k < length s" by simp
  have pn: "pred_native (int (Suc k)) = Inr (int k)" by (simp add: pred_native_def)
  have gi: "native_getitem s (int k) = Inr (s ! k)" using lt by (simp add: native_getitem_nat)
  have tk: "take (Suc k) s = take k s @ [s ! k]" using lt by (simp add: take_Suc_conv_app_nth)
  show ?case
  proof (cases "p (s ! k)")
    case True
    have "skip_pred p s (int (Suc k)) = Inr (int k)"
      by (subst skip_pred.simps) (simp add: pn gi True del: of_nat_Suc)
    moreover have "filter p (take (Suc k) s) = filter p (take k s) @ [s ! k]"
      by (subst tk) (simp add: True)
    ultimately show ?thesis using True by blast
  next
    case False
    have eq: "skip_pred p s (int (Suc k)) = skip_pred p s (int k)"
      by (subst skip_pred.simps) (simp add: pn gi False del: of_nat_Suc)
    have t: "filter p (take (Suc k) s) = filter p (take k s)"
      by (subst tk) (simp add: False)
    from Suc.IH lt
    have "(skip_pred p s (int k) = Inl ValueError \<and> filter p (take k s) = []) \<or>
      (\<exists>k'. skip_pred p s (int k) = Inr (int k') \<and> k' < k \<and> p (s ! k') \<and>
        filter p (take k s) = filter p (take k' s) @ [s ! k'])" by simp
    then show ?thesis
    proof
      assume "skip_pred p s (int k) = Inl ValueError \<and> filter p (take k s) = []"
      with eq t show ?thesis by simp
    next
      assume "\<exists>k'. skip_pred p s (int k) = Inr (int k') \<and> k' < k \<and> p (s ! k') \<and>
        filter p (take k s) = filter p (take k' s) @ [s ! k']"
      then obtain k' where k': "skip_pred p s (int k) = Inr (int k')" "k' < k" "p (s ! k')"
        "filter p (take k s) = filter p (take k' s) @ [s ! k']" by blast
      have "skip_pred p s (int (Suc k)) = Inr (int k') \<and> k' < Suc k \<and> p (s ! k') \<and>
        filter p (take (Suc k) s) = filter p (take k' s) @ [s ! k']"
        using k' eq t by simp
      then show ?thesis by blast
    qed
  qed
qed

lemma filter_view_forward:
  assumes v: "fv_seq v = s" "fv_end v = FilterIndex c p s (int (length s))"
  shows "k < length s \<Longrightarrow> p (s ! k) \<Longrightarrow>
     iter_loop (fv_getitem v) (fv_end v) (FilterIndex c p s (int k)) =
       Some (filter p (drop k s), Raised StopIteration)"
proof (induction "length s - k" arbitrary: k rule: less_induct)
  case less
  have ne: "py_ne (FilterIndex c p s (int k)) (fv_end v) = Inr True"
    using less.prems by (simp add: v py_ne_def py_eq_def)
  have gi: "fv_getitem v (FilterIndex c p s (int k)) = Inr (s ! k)"
    using less.prems by (simp add: v native_getitem_nat)
  have dr: "filter p (drop k s) = s ! k # filter p (drop (Suc k) s)"
    using less.prems by (simp add: Cons_nth_drop_Suc [symmetric])
  from skip_succ_cases [of p s k] show ?case
  proof
    assume a: "skip_succ p s (int k) = Inl IndexError \<and> filter p (drop (Suc k) s) = []"
    then have sc: "succ (FilterIndex c p s (int k)) = Inl IndexError"
      by (simp add: except_AttributeError_def)
    from iter_loop_succ_raises [where getitem = "fv_getitem v", OF ne gi sc] a dr
    show ?thesis by (simp add: iter_except_def)
  next
    assume "\<exists>k'. skip_succ p s (int k) = Inr (int k') \<and> k < k' \<and> k' < length s \<and> p (s ! k') \<and>
      filter p (drop (Suc k) s) = filter p (drop k' s) \<and>
      filter p (take k' s) = filter p (take (Suc k) s)"
    then obtain k' where k': "skip_succ p s (int k) = Inr (int k')" "k < k'" "k' < length s"
      "p (s ! k')" "filter p (drop (Suc k) s) = filter p (drop k' s)" by blast
    have sc: "succ (FilterIndex c p s (int k)) = Inr (FilterIndex c p s (int k'))"
      using k'(1) by (simp add: except_AttributeError_def)
    have IH: "iter_loop (fv_getitem v) (fv_end v) (FilterIndex c p s (int k')) =
       Some (filter p (drop k' s), Raised StopIteration)"
      using less.hyps [of k'] k' by simp
    from iter_loop_step [where getitem = "fv_getitem v", OF ne gi sc IH] dr k'(5)
    show ?thesis by simp
  qed
qed

lemma filter_view_backward:
  assumes v: "fv_seq v = s" "fv_begin v = FilterIndex c p s (int k0)"
    and k0: "p (s ! k0)" "filter p (take k0 s) = []"
  shows "k0 \<le> k \<Longrightarrow> k \<le> length s \<Longrightarrow>
     reversed_loop (fv_getitem v) (fv_begin v) (FilterIndex c p s (int k)) =
       Some (rev (filter p (take k s)), Returned)"
proof (induction k rule: less_induct)
  case (less k)
  show ?case
  proof (cases "k = k0")
    case True
    then have "py_ne (FilterIndex c p s (int k)) (fv_begin v) = Inr False"
      by (simp add: v py_ne_def py_eq_def)
    from reversed_loop_stop [OF this] True k0 show ?thesis by simp
  next
    case False
    with less.prems have lt: "k0 < k" by simp
    have ne: "py_ne (FilterIndex c p s (int k)) (fv_begin v) = Inr True"
      using False by (simp add: v py_ne_def py_eq_def)
    have "s ! k0 \<in> set (take k s)"
      using lt less.prems by (metis in_set_conv_nth length_take min.absorb2 nth_take)
    with k0 have nonempty: "filter p (take k s) \<noteq> []"
      by (auto simp: filter_empty_conv)
    from skip_pred_cases [OF less.prems(2), of p] nonempty
    obtain k' where k': "skip_pred p s (int k) = Inr (int k')" "k' < k" "p (s ! k')"
      "filter p (take k s) = filter p (take k' s) @ [s ! k']" by blast
    have ge: "k0 \<le> k'"
    proof (rule ccontr)
      assume "\<not> k0 \<le> k'"
      then have "k' < k0" by simp
      then have "s ! k' \<in> set (take k0 s)"
        using lt less.prems by (metis in_set_conv_nth length_take less_le_trans min.absorb2 nat_less_le nth_take)
      with k'(3) k0(2) show False by (auto simp: filter_empty_conv)
    qed
    have pc: "pred (FilterIndex c p s (int k)) = Inr (FilterIndex c p s (int k'))"
      using k'(1) by (simp add: except_AttributeError_def)
    have gi: "fv_getitem v (FilterIndex c p s (int k')) = Inr (s ! k')"
      using k'(2) less.prems by (simp add: v native_getitem_nat)
    have IH: "reversed_loop (fv_getitem v) (fv_begin v) (FilterIndex c p s (int k')) =
       Some (rev (filter p (take k' s)), Returned)"
      using less.IH [of k'] k'(2) ge less.prems by simp
    from reversed_loop_step [where getitem = "fv_getitem v", OF ne pc gi IH] k'(4)
    show ?thesis by simp
  qed
qed

lemma init_with_match:
  assumes "filter p s \<noteq> []" and "int (length s) \<le> sys_maxsize"
  shows "\<exists>k0. FilterBidirectionalView_init p Registered s h =
           (Inr \<lparr>fv_func = p, fv_seq_class = Registered, fv_seq = s, fv_class = h,
                  fv_begin = FilterIndex h p s (int k0),
                  fv_end = FilterIndex h p s (int (length s))\<rparr>, Suc h) \<and>
         k0 < length s \<and> p (s ! k0) \<and> filter p (take k0 s) = [] \<and>
         filter p (drop k0 s) = filter p s"
proof -
  from assms have ne: "s \<noteq> []" by auto
  then have g0: "native_getitem s 0 = Inr (s ! 0)" by (simp add: native_getitem_def)
  show ?thesis
  proof (cases "p (s ! 0)")
    case True
    with g0 ne assms(2) have "FilterBidirectionalView_init p Registered s h =
           (Inr \<lparr>fv_func = p, fv_seq_class = Registered, fv_seq = s, fv_class = h,
                  fv_begin = FilterIndex h p s (int 0),
                  fv_end = FilterIndex h p s (int (length s))\<rparr>, Suc h) \<and>
         0 < length s \<and> p (s ! 0) \<and> filter p (take 0 s) = [] \<and>
         filter p (drop 0 s) = filter p s"
      by (simp add: FilterBidirectionalView_init_def py_len_def)
    then show ?thesis by blast
  next
    case False
    have s1: "filter p s = filter p (drop (Suc 0) s)" "filter p (take (Suc 0) s) = []"
      using False ne by (cases s; simp)+
    with assms skip_succ_cases [of p s 0]
    obtain k' where k': "skip_succ p s (int 0) = Inr (int k')" "0 < k'" "k' < length s"
      "p (s ! k')" "filter p (drop (Suc 0) s) = filter p (drop k' s)"
      "filter p (take k' s) = filter p (take (Suc 0) s)" by auto
    have sc: "succ (FilterIndex h p s 0) = Inr (FilterIndex h p s (int k'))"
      using k'(1) by (simp add: except_AttributeError_def)
    have "FilterBidirectionalView_init p Registered s h =
           (Inr \<lparr>fv_func = p, fv_seq_class = Registered, fv_seq = s, fv_class = h,
                  fv_begin = FilterIndex h p s (int k'),
                  fv_end = FilterIndex h p s (int (length s))\<rparr>, Suc h)"
      using g0 False sc assms(2) by (simp add: FilterBidirectionalView_init_def py_len_def)
    with k' s1 show ?thesis by auto
  qed
qed

lemma sfilter_with_match:
  assumes "filter p s \<noteq> []" and "int (length s) \<le> sys_maxsize"
  shows "\<exists>v. sfilter p (PySequence s) h = (Inr (FilterView v), Suc h) \<and>
           fv_iter v = Some (filter p s, Raised StopIteration) \<and>
           fv_reversed v = Some (rev (filter p s), Returned)"
proof -
  from init_with_match [OF assms, of h] obtain k0 where
    i: "FilterBidirectionalView_init p Registered s h =
           (Inr \<lparr>fv_func = p, fv_seq_class = Registered, fv_seq = s, fv_class = h,
                  fv_begin = FilterIndex h p s (int k0),
                  fv_end = FilterIndex h p s (int (length s))\<rparr>, Suc h)"
    and k0: "k0 < length s" "p (s ! k0)" "filter p (take k0 s) = []"
      "filter p (drop k0 s) = filter p s" by blast
  let ?v = "\<lparr>fv_func = p, fv_seq_class = Registered, fv_seq = s, fv_class = h,
             fv_begin = FilterIndex h p s (int k0),
             fv_end = FilterIndex h p s (int (length s))\<rparr>"
  have f: "fv_iter ?v = Some (filter p s, Raised StopIteration)"
    using filter_view_forward [of ?v s h p k0] k0 by (simp add: fv_iter_def)
  have r: "fv_reversed ?v = Some (rev (filter p s), Returned)"
    using filter_view_backward [of ?v s h p k0 "length s"] k0 by (simp add: fv_reversed_def)
  from i f r show ?thesis by simp
qed

subsection \<open>A map view over two sequences that inherit collections.abc.Sequence\<close>

lemma smap_two_inheriting:
  "\<exists>v. smap (binary f) [PyUserSequence a, PyUserSequence b] h = (Inr (View v), Suc h) \<and>
       mv_begin v = MapIndex h [Native 0, Native 0] \<and> mv_end v = MapIndex h [Native 0, Native 0] \<and>
       mv_iter v = Some ([], Returned) \<and> mv_reversed v = Some ([], Returned)"
  by (simp add: smap_def MapBidirectionalView_init_def mv_iter_def mv_reversed_def
      iter_loop_stop reversed_loop_stop py_ne_def py_eq_def)

subsection \<open>A filter view over a sequence that inherits collections.abc.Sequence\<close>

lemma sfilter_inheriting_first_match:
  assumes "s \<noteq> []" and "p (s ! 0)"
  shows "\<exists>v. sfilter p (PyUserSequence s) h = (Inr (FilterView v), Suc h) \<and>
           fv_begin v = FilterIndex h p s 0 \<and> fv_end v = FilterIndex h p s 0 \<and>
           fv_iter v = Some ([], Returned) \<and> fv_reversed v = Some ([], Returned)"
proof -
  from assms(1) have "native_getitem s 0 = Inr (s ! 0)" by (simp add: native_getitem_def)
  with assms(2) show ?thesis
    by (simp add: FilterBidirectionalView_init_def fv_iter_def fv_reversed_def
        iter_loop_stop reversed_loop_stop py_ne_def py_eq_def)
qed

subsection \<open>The length of a map view\<close>

lemma MapView_len_raises: "MapView_len v = Inl TypeError"
  by (cases "mv_end v"; cases "mv_cls v") (simp_all add: MapView_len_def)

section \<open>Claims\<close>

text \<open>
  C8. For a native integer index \<open>i\<close>, \<open>succ\<close> always returns \<open>i + 1\<close>; \<open>pred\<close> raises
  \<open>ValueError\<close> (the underflow) exactly when \<open>i = 0\<close> and returns \<open>i - 1\<close> otherwise.
\<close>

theorem native_succ_pred:
  "succ (Native i) = Inr (Native (i + 1)) \<and>
   ((pred (Native i) = Inl ValueError) = (i = 0)) \<and>
   ((\<exists>e. pred (Native i) = Inl e) = (i = 0)) \<and>
   (i \<noteq> 0 \<longrightarrow> pred (Native i) = Inr (Native (i - 1)))"
  by (simp add: succ_native_def pred_native_def)

theorem native_succ_pred_witness:
  "succ (Native 0) = Inr (Native 1) \<and> pred (Native 0) = Inl ValueError \<and>
   (5::int) \<noteq> 0 \<and> pred (Native 5) = Inr (Native 4) \<and> succ (Native 5) = Inr (Native 6)"
  using native_succ_pred [of 0] native_succ_pred [of 5] by auto

text \<open>
  C1. Claimed: for every two random-access sequences \<open>a\<close> and \<open>b\<close> of equal length and
  every function \<open>f\<close> of two arguments, forward iteration of \<open>smap(f, a, b)\<close> yields the
  list with \<open>f(a[i], b[i])\<close> at position \<open>i\<close>, and reverse iteration yields that list
  reversed. On the code this holds for sequences of registered classes (list, tuple,
  range) whose length \<open>len\<close> can return. For sequences of a class that inherits
  \<open>collections.abc.Sequence\<close> (\<open>collections.UserList\<close>), \<open>end\<close> is \<open>0\<close> whatever the length,
  so \<open>begin == end\<close> and both iterations yield nothing.
\<close>

theorem smap_equal_lengths:
  "(length a = length b \<and> int (length a) \<le> sys_maxsize \<longrightarrow>
      (\<exists>v. smap (binary f) [PySequence a, PySequence b] h = (Inr (View v), Suc h) \<and>
           mv_iter v = Some (map2 f a b, Returned) \<and>
           mv_reversed v = Some (rev (map2 f a b), Returned) \<and>
           map_option py_list (mv_iter v) = Some (Inr (map2 f a b)) \<and>
           map_option py_list (mv_reversed v) = Some (Inr (rev (map2 f a b))) \<and>
           length (map2 f a b) = length a \<and>
           (\<forall>i<length a. map2 f a b ! i = f (a ! i) (b ! i)))) \<and>
   (\<exists>v. smap (binary f) [PyUserSequence a, PyUserSequence b] h = (Inr (View v), Suc h) \<and>
        mv_iter v = Some ([], Returned) \<and>
        mv_reversed v = Some ([], Returned) \<and>
        map_option py_list (mv_iter v) = Some (Inr []) \<and>
        map_option py_list (mv_reversed v) = Some (Inr []))"
proof (intro conjI impI)
  assume eq: "length a = length b \<and> int (length a) \<le> sys_maxsize"
  then have "\<forall>i<length a. map2 f a b ! i = f (a ! i) (b ! i)" by simp
  moreover have "smap (binary f) [PySequence a, PySequence b] h =
      (Inr (View (two_view f a b h)), Suc h)"
    using eq by (simp add: smap_two)
  moreover have "mv_iter (two_view f a b h) = Some (map2 f a b, Returned)"
    using eq by (simp add: two_view_iter)
  moreover have "mv_reversed (two_view f a b h) = Some (rev (map2 f a b), Returned)"
    using eq by (simp add: two_view_reversed)
  ultimately show "\<exists>v. smap (binary f) [PySequence a, PySequence b] h = (Inr (View v), Suc h) \<and>
           mv_iter v = Some (map2 f a b, Returned) \<and>
           mv_reversed v = Some (rev (map2 f a b), Returned) \<and>
           map_option py_list (mv_iter v) = Some (Inr (map2 f a b)) \<and>
           map_option py_list (mv_reversed v) = Some (Inr (rev (map2 f a b))) \<and>
           length (map2 f a b) = length a \<and>
           (\<forall>i<length a. map2 f a b ! i = f (a ! i) (b ! i))"
    using eq by auto
next
  from smap_two_inheriting [of f a b h] obtain v where
    "smap (binary f) [PyUserSequence a, PyUserSequence b] h = (Inr (View v), Suc h)"
    "mv_iter v = Some ([], Returned)" "mv_reversed v = Some ([], Returned)" by blast
  then have "smap (binary f) [PyUserSequence a, PyUserSequence b] h = (Inr (View v), Suc h) \<and>
        mv_iter v = Some ([], Returned) \<and>
        mv_reversed v = Some ([], Returned) \<and>
        map_option py_list (mv_iter v) = Some (Inr []) \<and>
        map_option py_list (mv_reversed v) = Some (Inr [])"
    by simp
  then show "\<exists>v. smap (binary f) [PyUserSequence a, PyUserSequence b] h = (Inr (View v), Suc h) \<and>
        mv_iter v = Some ([], Returned) \<and>
        mv_reversed v = Some ([], Returned) \<and>
        map_option py_list (mv_iter v) = Some (Inr []) \<and>
        map_option py_list (mv_reversed v) = Some (Inr [])"
    by blast
qed

theorem smap_equal_lengths_witness:
  "length [0, 1, 2, 3::int] = length [0, 1, 2, 3::int] \<and>
   int (length [0, 1, 2, 3::int]) \<le> sys_maxsize \<and>
   (\<exists>v. smap (binary (+)) [PySequence [0, 1, 2, 3::int], PySequence [0, 1, 2, 3]] 0 =
           (Inr (View v), Suc 0) \<and>
        map_option py_list (mv_iter v) = Some (Inr [0, 2, 4, 6]) \<and>
        map_option py_list (mv_reversed v) = Some (Inr [6, 4, 2, 0])) \<and>
   (\<exists>v. smap (binary (+)) [PyUserSequence [0, 1, 2, 3::int], PyUserSequence [0, 1, 2, 3]] 0 =
           (Inr (View v), Suc 0) \<and>
        map_option py_list (mv_iter v) = Some (Inr []) \<and>
        map_option py_list (mv_reversed v) = Some (Inr []))"
proof -
  have b: "length [0, 1, 2, 3::int] = length [0, 1, 2, 3::int] \<and>
      int (length [0, 1, 2, 3::int]) \<le> sys_maxsize"
    by (simp add: sys_maxsize_def)
  from smap_equal_lengths [of "[0, 1, 2, 3::int]" "[0, 1, 2, 3]" "(+)" 0] b
  have "\<exists>v. smap (binary (+)) [PySequence [0, 1, 2, 3::int], PySequence [0, 1, 2, 3]] 0 =
           (Inr (View v), Suc 0) \<and>
        map_option py_list (mv_iter v) = Some (Inr [0, 2, 4, 6]) \<and>
        map_option py_list (mv_reversed v) = Some (Inr [6, 4, 2, 0])"
    by auto
  moreover from smap_equal_lengths [of "[0, 1, 2, 3::int]" "[0, 1, 2, 3]" "(+)" 0]
  have "\<exists>v. smap (binary (+)) [PyUserSequence [0, 1, 2, 3::int], PyUserSequence [0, 1, 2, 3]] 0 =
           (Inr (View v), Suc 0) \<and>
        map_option py_list (mv_iter v) = Some (Inr []) \<and>
        map_option py_list (mv_reversed v) = Some (Inr [])"
    by blast
  ultimately show ?thesis using b by blast
qed

text \<open>
  C2. Claimed: for every sequence \<open>s\<close> and predicate \<open>p\<close>, forward iteration of
  \<open>sfilter(p, s)\<close> yields the elements of \<open>s\<close> that satisfy \<open>p\<close>, in order, and reverse
  iteration yields that list reversed. On the code, for a native sequence \<open>s\<close>: where no
  element satisfies \<open>p\<close>, the empty sequence included, there is no view to iterate over,
  the constructor raises \<open>IndexError\<close>. Where some element satisfies \<open>p\<close>, the forward
  generator yields the claimed elements and is then left by the \<open>StopIteration\<close> that
  \<open>__iter__\<close> raises for the \<open>IndexError\<close> of the read past the end, so that \<open>list\<close> of the
  view raises \<open>RuntimeError\<close>; reverse iteration returns the claimed list.
\<close>

theorem sfilter_iteration:
  "(filter p s = [] \<longrightarrow> sfilter p (PySequence s) h = (Inl IndexError, Suc h)) \<and>
   (filter p s \<noteq> [] \<and> int (length s) \<le> sys_maxsize \<longrightarrow>
      (\<exists>v. sfilter p (PySequence s) h = (Inr (FilterView v), Suc h) \<and>
           fv_iter v = Some (filter p s, Raised StopIteration) \<and>
           map_option py_list (fv_iter v) = Some (Inl RuntimeError) \<and>
           fv_reversed v = Some (rev (filter p s), Returned) \<and>
           map_option py_list (fv_reversed v) = Some (Inr (rev (filter p s)))))"
proof (intro conjI impI)
  assume "filter p s = []"
  then show "sfilter p (PySequence s) h = (Inl IndexError, Suc h)"
    by (simp add: init_no_match)
next
  assume a: "filter p s \<noteq> [] \<and> int (length s) \<le> sys_maxsize"
  then have "filter p s \<noteq> []" and "int (length s) \<le> sys_maxsize" by simp_all
  from sfilter_with_match [OF this, of h] obtain v where
    "sfilter p (PySequence s) h = (Inr (FilterView v), Suc h)"
    "fv_iter v = Some (filter p s, Raised StopIteration)"
    "fv_reversed v = Some (rev (filter p s), Returned)" by blast
  then have "sfilter p (PySequence s) h = (Inr (FilterView v), Suc h) \<and>
           fv_iter v = Some (filter p s, Raised StopIteration) \<and>
           map_option py_list (fv_iter v) = Some (Inl RuntimeError) \<and>
           fv_reversed v = Some (rev (filter p s), Returned) \<and>
           map_option py_list (fv_reversed v) = Some (Inr (rev (filter p s)))"
    by simp
  then show "\<exists>v. sfilter p (PySequence s) h = (Inr (FilterView v), Suc h) \<and>
           fv_iter v = Some (filter p s, Raised StopIteration) \<and>
           map_option py_list (fv_iter v) = Some (Inl RuntimeError) \<and>
           fv_reversed v = Some (rev (filter p s), Returned) \<and>
           map_option py_list (fv_reversed v) = Some (Inr (rev (filter p s)))"
    by blast
qed

theorem sfilter_iteration_witness:
  "filter (\<lambda>x. x mod 2 = 1) [0, 2::int] = [] \<and>
   sfilter (\<lambda>x. x mod 2 = 1) (PySequence [0, 2::int]) 0 = (Inl IndexError, Suc 0) \<and>
   filter (\<lambda>x. x mod 2 = 1) [0, 1, 2, 3::int] \<noteq> [] \<and>
   int (length [0, 1, 2, 3::int]) \<le> sys_maxsize \<and>
   (\<exists>v. sfilter (\<lambda>x. x mod 2 = 1) (PySequence [0, 1, 2, 3::int]) 0 = (Inr (FilterView v), Suc 0) \<and>
        fv_iter v = Some ([1, 3], Raised StopIteration) \<and>
        map_option py_list (fv_iter v) = Some (Inl RuntimeError) \<and>
        map_option py_list (fv_reversed v) = Some (Inr [3, 1]))"
proof -
  have a: "filter (\<lambda>x. x mod 2 = 1) [0, 2::int] = []" by simp
  have b: "filter (\<lambda>x. x mod 2 = 1) [0, 1, 2, 3::int] = [1, 3]" by simp
  have m: "int (length [0, 1, 2, 3::int]) \<le> sys_maxsize" by (simp add: sys_maxsize_def)
  from sfilter_iteration [of "\<lambda>x. x mod 2 = 1" "[0, 2::int]" 0] a
  have c: "sfilter (\<lambda>x. x mod 2 = 1) (PySequence [0, 2::int]) 0 = (Inl IndexError, Suc 0)"
    by blast
  from sfilter_iteration [of "\<lambda>x. x mod 2 = 1" "[0, 1, 2, 3::int]" 0] b m
  have d: "\<exists>v. sfilter (\<lambda>x. x mod 2 = 1) (PySequence [0, 1, 2, 3::int]) 0 = (Inr (FilterView v), Suc 0) \<and>
        fv_iter v = Some ([1, 3], Raised StopIteration) \<and>
        map_option py_list (fv_iter v) = Some (Inl RuntimeError) \<and>
        map_option py_list (fv_reversed v) = Some (Inr [3, 1])"
    by auto
  from a b c d m show ?thesis by simp
qed

text \<open>
  C3. Claimed: constructing the filter view with a predicate that no element of \<open>s\<close>
  satisfies succeeds with \<open>begin == end\<close>. The constructor instead raises: the
  \<open>IndexError\<close> of the read past the end (or of \<open>seq[0]\<close> for an empty \<open>s\<close>) is not the
  \<open>StopIteration\<close> that the \<open>try\<close> statement catches.
\<close>

theorem filter_view_no_match_raises:
  "filter func seq = [] \<Longrightarrow> sfilter func (PySequence seq) h = (Inl IndexError, Suc h)"
  by (simp add: init_no_match)

theorem filter_view_no_match_raises_witness:
  "filter (\<lambda>x. False) [1::int] = [] \<and>
   sfilter (\<lambda>x. False) (PySequence [1::int]) 0 = (Inl IndexError, Suc 0)"
  using filter_view_no_match_raises [of "\<lambda>x. False" "[1::int]" 0] by simp

text \<open>
  C4. Claimed: the length of the view that \<open>smap\<close> returns for random-access sources is
  the minimum of their lengths. \<open>MapView.__len__\<close> passes the composite index
  \<open>self.end\<close> itself to \<open>min\<close>, not its \<open>seqindices\<close>, so \<open>len\<close> raises \<open>TypeError\<close>:
  here for sources of lengths 2 and 1.
\<close>

theorem smap_len_raises:
  "\<exists>v. smap (binary (+)) [PySequence [1, 2], PySequence [3::int]] 0 = (Inr (View v), Suc 0) \<and>
       mv_cls v = MapView \<and> MapView_len v = Inl TypeError \<and> MapView_len v \<noteq> Inr 1"
  using smap_two [of "[1, 2::int]" "[3]" "(+)" 0]
  by (simp add: MapView_len_raises two_view_def sys_maxsize_def)

text \<open>
  C5. Claimed: for random-access sequences of lengths \<open>m \<le> n\<close>, in either order, forward
  iteration of \<open>smap(f, a, b)\<close> yields exactly \<open>m\<close> elements and then terminates normally;
  \<open>map(add, [0,1,2,3], [10])\<close> gives \<open>[10]\<close>. On the code, for native sequences: the
  generator yields the \<open>min(m, n)\<close> elements \<open>f(a[i], b[i])\<close>. For equal lengths it then
  returns. For different lengths it is left by the \<open>StopIteration\<close> that \<open>__iter__\<close>
  raises for the \<open>IndexError\<close> of the shorter source, so that the consumer receives
  \<open>RuntimeError\<close> and \<open>list\<close> of the view returns no list.
\<close>

theorem smap_forward_shortest:
  assumes "int (length a) \<le> sys_maxsize" and "int (length b) \<le> sys_maxsize"
  shows "\<exists>v. smap (binary f) [PySequence a, PySequence b] h = (Inr (View v), Suc h) \<and>
       mv_iter v = Some (map2 f a b,
                         if length a = length b then Returned else Raised StopIteration) \<and>
       map_option py_list (mv_iter v) =
         Some (if length a = length b then Inr (map2 f a b) else Inl RuntimeError) \<and>
       length (map2 f a b) = min (length a) (length b)"
  using smap_two [OF assms, of f h] two_view_iter [of f a b h] by auto

theorem smap_forward_shortest_witness:
  "int (length [0, 1, 2, 3::int]) \<le> sys_maxsize \<and> int (length [10::int]) \<le> sys_maxsize \<and>
   (\<exists>v. smap (binary (+)) [PySequence [0, 1, 2, 3::int], PySequence [10]] 0 =
           (Inr (View v), Suc 0) \<and>
        mv_iter v = Some ([10], Raised StopIteration) \<and>
        map_option py_list (mv_iter v) = Some (Inl RuntimeError)) \<and>
   (\<exists>v. smap (binary (+)) [PySequence [10], PySequence [0, 1, 2, 3::int]] 0 =
           (Inr (View v), Suc 0) \<and>
        mv_iter v = Some ([10], Raised StopIteration) \<and>
        map_option py_list (mv_iter v) = Some (Inl RuntimeError))"
proof -
  have m: "int (length [0, 1, 2, 3::int]) \<le> sys_maxsize" "int (length [10::int]) \<le> sys_maxsize"
    by (simp_all add: sys_maxsize_def)
  from smap_forward_shortest [OF m(1) m(2), of "(+)" 0]
  have "\<exists>v. smap (binary (+)) [PySequence [0, 1, 2, 3::int], PySequence [10]] 0 =
           (Inr (View v), Suc 0) \<and>
        mv_iter v = Some ([10], Raised StopIteration) \<and>
        map_option py_list (mv_iter v) = Some (Inl RuntimeError)"
    by auto
  moreover from smap_forward_shortest [OF m(2) m(1), of "(+)" 0]
  have "\<exists>v. smap (binary (+)) [PySequence [10], PySequence [0, 1, 2, 3::int]] 0 =
           (Inr (View v), Suc 0) \<and>
        mv_iter v = Some ([10], Raised StopIteration) \<and>
        map_option py_list (mv_iter v) = Some (Inl RuntimeError)"
    by auto
  ultimately show ?thesis using m by blast
qed

text \<open>
  C6. Claimed: \<open>sfilter\<close> builds a filter view for every input that is at least
  bidirectional. The test in \<open>sfilter\<close> is \<open>isinstance(iterable, collections.abc.Sequence)\<close>,
  so a bidirectional-only input, here the filter view built by an inner \<open>sfilter\<close> call,
  gets the built-in \<open>filter\<close>.
\<close>

theorem sfilter_bidirectional_only_input:
  "\<exists>v. sfilter (\<lambda>x. True) (PySequence [1::int]) 0 = (Inr (FilterView v), Suc 0) \<and>
       is_BidirectionalSequence (PyFilterView v) \<and> \<not> is_Sequence (PyFilterView v) \<and>
       sfilter (\<lambda>x. True) (PyFilterView v) (Suc 0) =
         (Inr (BuiltinFilter (\<lambda>x. True) (PyFilterView v)), Suc 0)"
  by (simp add: FilterBidirectionalView_init_def native_getitem_def py_len_def sys_maxsize_def)

text \<open>
  C7. Claimed: comparing two indices of different concrete kinds raises an error.
  Counterexample: the integer \<open>0\<close> and a composite index compare unequal, without an
  error.
\<close>

theorem different_kinds_counterexample:
  "kind_of (Native 0 :: int index) \<noteq> kind_of (MapIndex 0 [Native 0] :: int index) \<and>
   py_eq (Native 0 :: int index) (MapIndex 0 [Native 0]) = Inr False"
  by (simp add: py_eq_def)

text \<open>
  C7, as amended. Comparing two indices of different concrete kinds raises no error:
  \<open>==\<close> answers \<open>False\<close> and \<open>!=\<close> answers \<open>True\<close>, in either order of the operands.
\<close>

theorem different_kinds_compare_unequal:
  "kind_of a \<noteq> kind_of b \<Longrightarrow>
   py_eq a b = Inr False \<and> py_ne a b = Inr True \<and> py_eq b a = Inr False \<and> py_ne b a = Inr True"
  by (cases a; cases b) (simp_all add: py_eq_def py_ne_def)

theorem different_kinds_compare_unequal_witness:
  "kind_of (FilterIndex 1 (\<lambda>x. True) [5::int] 0) \<noteq> kind_of (MapIndex 0 [Native 0] :: int index) \<and>
   py_eq (FilterIndex 1 (\<lambda>x. True) [5::int] 0) (MapIndex 0 [Native 0]) = Inr False \<and>
   py_ne (FilterIndex 1 (\<lambda>x. True) [5::int] 0) (MapIndex 0 [Native 0]) = Inr True"
  using different_kinds_compare_unequal
          [of "FilterIndex 1 (\<lambda>x. True) [5::int] 0" "MapIndex 0 [Native 0]"]
  by simp

text \<open>
  C9. Claimed: \<open>smap\<close> with a function and no input sequence signals an error.
  Counterexample: \<open>all\<close> over no iterables is true, so the call returns a \<open>MapView\<close>
  over no sources.
\<close>

theorem smap_no_sources_counterexample:
  "fst (smap (binary (+)) ([] :: int iterable list) 0) =
     Inr (View \<lparr>mv_cls = MapView, mv_func = binary (+), mv_seqs = [], mv_class = 0,
                 mv_begin = MapIndex 0 [], mv_end = MapIndex 0 []\<rparr>)"
  by (simp add: smap_def MapBidirectionalView_init_def)

text \<open>
  C9, as amended. \<open>smap\<close> with a function and no input sequence raises nothing: it
  returns a \<open>MapView\<close> over no sources, whose \<open>begin\<close> and \<open>end\<close> are the same empty
  composite index, so that forward and reverse iteration yield nothing.
\<close>

theorem smap_no_sources:
  "\<exists>v. smap func [] h = (Inr (View v), Suc h) \<and>
       mv_cls v = MapView \<and> mv_seqs v = [] \<and>
       mv_begin v = MapIndex h [] \<and> mv_end v = MapIndex h [] \<and>
       py_eq (mv_begin v) (mv_end v) = Inr True \<and>
       mv_iter v = Some ([], Returned) \<and> mv_reversed v = Some ([], Returned)"
  by (simp add: smap_def MapBidirectionalView_init_def mv_iter_def mv_reversed_def
      iter_loop_stop reversed_loop_stop py_ne_def py_eq_def)

theorem smap_no_sources_witness:
  "\<exists>v. smap (binary (+)) ([] :: int iterable list) 0 = (Inr (View v), Suc 0) \<and>
       mv_iter v = Some ([], Returned) \<and> mv_reversed v = Some ([], Returned)"
  using smap_no_sources [of "binary (+) :: int list \<Rightarrow> error + int" 0] by auto



end
